theory Spec2Isabelle
  imports Complex_Main
begin

section \<open>Python values, errors and sequencing\<close>

text \<open>
  The converter is Python: an exception ends the call that raises it, so every function of
  the model that can raise returns \<open>error + 'a\<close>, with \<open>Inl\<close> for the exception. The
  constructors are the exception classes the modelled lines can raise.
  \<open>OpError\<close> is the class of the errors of a TensorFlow operation, raised when it is
  handed an element type outside its list (InvalidArgumentError; while a graph is traced the
  same rejection is a TypeError, and the model has the one constructor for both).
  \<open>NonFiniteCast\<close> stands for the one outcome that is no
  exception: a float division by zero gives inf or nan, and the cast of that to int64 is not
  defined by the libraries.
\<close>

datatype error =
    TypeError
  | IndexError
  | KeyError
  | ValueError
  | AxisError
  | AssertionError
  | RecursionError
  | OpError
  | NonFiniteCast

text \<open>Statement after statement: the first exception ends the sequence.\<close>

fun ebind :: "error + 'a \<Rightarrow> ('a \<Rightarrow> error + 'b) \<Rightarrow> error + 'b" where
  "ebind (Inl e) f = Inl e"
| "ebind (Inr x) f = f x"

text \<open>
  Attribute values and the \<open>axis\<close> argument are dynamically typed: an integer or a list.
\<close>

datatype pyval = PyInt int | PyList "pyval list"

text \<open>\<open>xs[i]\<close>: a negative index counts from the end, anything else out of range raises.\<close>

definition py_index :: "'a list \<Rightarrow> int \<Rightarrow> error + 'a" where
  "py_index xs i =
     (if 0 \<le> i \<and> i < int (length xs) then Inr (xs ! nat i)
      else if - int (length xs) \<le> i \<and> i < 0 then Inr (xs ! nat (int (length xs) + i))
      else Inl IndexError)"

text \<open>\<open>xs[i] = v\<close>, with the same index rule.\<close>

definition py_setitem :: "'a list \<Rightarrow> int \<Rightarrow> 'a \<Rightarrow> error + 'a list" where
  "py_setitem xs i v =
     (if 0 \<le> i \<and> i < int (length xs) then Inr (xs[nat i := v])
      else if - int (length xs) \<le> i \<and> i < 0 then Inr (xs[nat (int (length xs) + i) := v])
      else Inl IndexError)"

text \<open>\<open>xs[a:b]\<close> for non-negative bounds: a slice never raises, it is cut at the end.\<close>

definition py_slice :: "'a list \<Rightarrow> nat \<Rightarrow> nat \<Rightarrow> 'a list" where
  "py_slice xs a b = take (b - a) (drop a xs)"

text \<open>\<open>range(a, b)\<close> as a list.\<close>

definition py_range :: "int \<Rightarrow> int \<Rightarrow> int list" where
  "py_range a b = [a..b - 1]"

text \<open>\<open>for x in v\<close>: an integer is not iterable.\<close>

fun py_iter :: "pyval \<Rightarrow> error + pyval list" where
  "py_iter (PyList xs) = Inr xs"
| "py_iter (PyInt a) = Inl TypeError"

text \<open>\<open>bool(v)\<close>.\<close>

fun py_bool :: "pyval \<Rightarrow> bool" where
  "py_bool (PyInt a) = (a \<noteq> 0)"
| "py_bool (PyList xs) = (xs \<noteq> [])"

text \<open>A list comprehension \<open>[f(x) for x in xs]\<close>: the results in order, or the first exception.\<close>

fun map_err :: "('a \<Rightarrow> error + 'b) \<Rightarrow> 'a list \<Rightarrow> error + 'b list" where
  "map_err f [] = Inr []"
| "map_err f (x # xs) = ebind (f x) (\<lambda>y. ebind (map_err f xs) (\<lambda>ys. Inr (y # ys)))"

text \<open>The loop \<open>for i in ...: pads += body(i)\<close> on a list \<open>pads\<close>.\<close>

fun for_extend :: "('i \<Rightarrow> error + 'a list) \<Rightarrow> 'i list \<Rightarrow> 'a list \<Rightarrow> error + 'a list" where
  "for_extend body [] pads = Inr pads"
| "for_extend body (i # is) pads = ebind (body i) (\<lambda>xs. for_extend body is (pads @ xs))"

text \<open>The loop \<open>for i in ...: state = body(i, state)\<close>.\<close>

fun for_state :: "('i \<Rightarrow> 's \<Rightarrow> error + 's) \<Rightarrow> 'i list \<Rightarrow> 's \<Rightarrow> error + 's" where
  "for_state body [] s = Inr s"
| "for_state body (i # is) s = ebind (body i s) (for_state body is)"

text \<open>\<open>str.lower\<close> on ASCII text and \<open>str.startswith\<close>.\<close>

definition py_lower :: "string \<Rightarrow> string" where
  "py_lower s =
     map (\<lambda>c. let n = (of_char c :: nat) in if 65 \<le> n \<and> n \<le> 90 then char_of (n + 32) else c) s"

definition py_startswith :: "string \<Rightarrow> string \<Rightarrow> bool" where
  "py_startswith s p = (take (length p) s = p)"

text \<open>\<open>str(n)\<close> for an integer, as an f-string writes it.\<close>

fun digits :: "nat \<Rightarrow> string" where
  "digits n = (if n < 10 then [char_of (48 + n)] else digits (n div 10) @ [char_of (48 + n mod 10)])"

definition py_str_int :: "int \<Rightarrow> string" where
  "py_str_int i = (if i < 0 then CHR ''-'' # digits (nat (- i)) else digits (nat i))"

text \<open>
  A keyword call \<open>f(k1=..., k2=...)\<close> of a function whose parameters are keyword-only:
  it raises TypeError when it passes a keyword the function does not declare, or leaves out
  one that has no default.
\<close>

definition keywords_bind :: "string list \<Rightarrow> string list \<Rightarrow> string list \<Rightarrow> bool" where
  "keywords_bind required optional passed =
     (set passed \<subseteq> set required \<union> set optional \<and> set required \<subseteq> set passed)"

section \<open>Axis converter\<close>

text \<open>
  \<^verbatim>\<open>convert_axis\<close> (common_functions.py, lines 67 to 102). Line 88 compares
  \<open>axis >= 0\<close> first, which Python 3 refuses for a list. The table of line 99 is
  \<open>[0] + [tensor_rank - 1] + [i for i in range(1, tensor_rank - 1)]\<close>.
\<close>

definition convertion_table :: "int \<Rightarrow> int list" where
  "convertion_table tensor_rank = [0] @ [tensor_rank - 1] @ py_range 1 (tensor_rank - 1)"

fun convert_axis :: "pyval \<Rightarrow> int \<Rightarrow> error + int" where
  "convert_axis (PyList xs) tensor_rank = Inl TypeError"
| "convert_axis (PyInt axis) tensor_rank =
     (let converted_axis = (if axis \<ge> 0 then axis else axis + tensor_rank)
      in if tensor_rank > 2
         then py_index (convertion_table tensor_rank) converted_axis
         else Inr converted_axis)"

section \<open>Operands and the constant/variable resolver\<close>

datatype dtype =
    Float16 | BFloat16 | Float32 | Float64
  | Int8 | Int16 | Int32 | Int64
  | UInt8 | UInt16 | UInt32 | UInt64
  | Bool | String | Complex64 | Complex128

fun is_floating :: "dtype \<Rightarrow> bool" where
  "is_floating Float16 = True"
| "is_floating BFloat16 = True"
| "is_floating Float32 = True"
| "is_floating Float64 = True"
| "is_floating d = False"

fun is_integer :: "dtype \<Rightarrow> bool" where
  "is_integer Int8 = True"
| "is_integer Int16 = True"
| "is_integer Int32 = True"
| "is_integer Int64 = True"
| "is_integer UInt8 = True"
| "is_integer UInt16 = True"
| "is_integer UInt32 = True"
| "is_integer UInt64 = True"
| "is_integer d = False"

text \<open>
  A numpy array: its shape and its elements in row-major order. An operand of a graph node is a
  constant that carries such an array (it has the attribute \<open>values\<close>) or a variable, a
  named reference with a shape and an element type (it has none).
\<close>

record ndarray =
  nd_shape :: "nat list"
  nd_data :: "rat list"

record variable =
  var_name :: string
  var_shape :: "int list"
  var_dtype :: dtype

datatype operand = Constant string ndarray | Variable variable

text \<open>What the resolver hands back: the array of a constant, or the variable itself.\<close>

datatype resolved = Values ndarray | Reference variable

text \<open>
  \<open>ndarray.transpose(axes)\<close> of numpy: \<open>axes\<close> must name every axis of the array once.
  A list of another length raises ValueError (axes don't match array), an axis out of range
  AxisError, a repeated axis ValueError. Axis \<open>k\<close> of the result is axis \<open>axes[k]\<close> of the
  array.
\<close>

fun index_of :: "nat list \<Rightarrow> nat \<Rightarrow> nat" where
  "index_of [] j = 0"
| "index_of (x # xs) j = (if x = j then 0 else Suc (index_of xs j))"

text \<open>The indices of an array of a given shape in row-major order, and the place of one.\<close>

fun all_indices :: "nat list \<Rightarrow> nat list list" where
  "all_indices [] = [[]]"
| "all_indices (d # shape) = concat (map (\<lambda>i. map ((#) i) (all_indices shape)) [0..<d])"

fun flat_index :: "nat list \<Rightarrow> nat list \<Rightarrow> nat \<Rightarrow> nat" where
  "flat_index (d # shape) (i # idx) acc = flat_index shape idx (acc * d + i)"
| "flat_index shape idx acc = acc"

definition np_transpose :: "ndarray \<Rightarrow> int list \<Rightarrow> error + ndarray" where
  "np_transpose a axes =
     (let n = length (nd_shape a) in
      if length axes \<noteq> n then Inl ValueError
      else if \<not> list_all (\<lambda>k. - int n \<le> k \<and> k < int n) axes then Inl AxisError
      else
        let p = map (\<lambda>k. nat (if k < 0 then k + int n else k)) axes in
        if \<not> distinct p then Inl ValueError
        else
          let shape = map (\<lambda>k. nd_shape a ! k) p in
          Inr \<lparr>nd_shape = shape,
               nd_data =
                 map (\<lambda>idx. nd_data a !
                        flat_index (nd_shape a) (map (\<lambda>j. idx ! index_of p j) [0..<n]) 0)
                   (all_indices shape)\<rparr>)"

text \<open>
  \<^verbatim>\<open>get_constant_or_variable\<close> (common_functions.py, lines 12 to 35). The table of
  line 31 is \<open>[0] + [i for i in range(2, tensor_rank - 2)] + [1]\<close>.
\<close>

definition get_constant_or_variable :: "operand \<Rightarrow> error + resolved" where
  "get_constant_or_variable const_or_var =
     (case const_or_var of
        Constant name values \<Rightarrow>
          (let tensor_rank = int (length (nd_shape values)) in
           if tensor_rank > 2
           then
             (let convertion_table = [0] @ py_range 2 (tensor_rank - 2) @ [1]
              in ebind (np_transpose values convertion_table) (\<lambda>values. Inr (Values values)))
           else Inr (Values values))
      | Variable v \<Rightarrow> Inr (Reference v))"

section \<open>Tensors and the operations the builders emit\<close>

text \<open>
  The builders construct TensorFlow operations; the model keeps the operation that was
  built. \<open>T\<close> is a tensor that is handed to a builder, with what the builder reads of it: its
  name, its shape and its element type. \<open>Scalar\<close> is a constant of shape \<open>(1,)\<close>.
\<close>

record tensor =
  t_name :: string
  t_shape :: "int list"
  t_dtype :: dtype

datatype tf_tensor =
    T tensor
  | NumpyArray ndarray
  | ReduceMin tf_tensor int bool string
  | ReduceMax tf_tensor int bool
  | Subtract tf_tensor tf_tensor "string option"
  | Minimum tf_tensor tf_tensor
  | Multiply tf_tensor tf_tensor
  | Scalar rat dtype
  | Cast tf_tensor dtype
  | Range int int int dtype
  | ExpandDims tf_tensor int
  | Pad tf_tensor "(int \<times> int) list" rat

section \<open>Reduction operator translator (ReduceMin)\<close>

record graph_node =
  node_op :: string
  node_name :: string
  node_attrs :: "string \<rightharpoonup> pyval"
  node_inputs :: "operand list"
  node_outputs :: "variable list"

text \<open>An entry of the bookkeeping map; \<open>tf_node\<close> is \<open>None\<close> until the key is stored.\<close>

record layer =
  optype :: string
  layer_shape :: "int list"
  layer_dtype :: dtype
  tf_node :: "tf_tensor option"

text \<open>\<open>attrs.get(key, default)\<close>.\<close>

definition attrs_get :: "(string \<rightharpoonup> pyval) \<Rightarrow> string \<Rightarrow> pyval \<Rightarrow> pyval" where
  "attrs_get attrs key dflt = (case attrs key of None \<Rightarrow> dflt | Some v \<Rightarrow> v)"

text \<open>\<open>graph_node_input.shape\<close>, of an array or of a variable.\<close>

fun resolved_shape :: "resolved \<Rightarrow> int list" where
  "resolved_shape (Values a) = map int (nd_shape a)"
| "resolved_shape (Reference v) = var_shape v"

text \<open>
  Lines 55 and 56: the tensor of a variable is looked up by name in the map (KeyError when
  the entry or its \<open>tf_node\<close> is missing); a constant array is used as it is.
\<close>

fun input_tf_node :: "(string \<rightharpoonup> layer) \<Rightarrow> resolved \<Rightarrow> error + tf_tensor" where
  "input_tf_node tf_layers_dict (Reference v) =
     (case tf_layers_dict (var_name v) of
        None \<Rightarrow> Inl KeyError
      | Some l \<Rightarrow> (case tf_node l of None \<Rightarrow> Inl KeyError | Some t \<Rightarrow> Inr t))"
| "input_tf_node tf_layers_dict (Values a) = Inr (NumpyArray a)"

text \<open>Lines 57 to 63: one \<open>reduce_min\<close> after the other, each named after its axis.\<close>

fun reduce_all :: "string \<Rightarrow> bool \<Rightarrow> int list \<Rightarrow> tf_tensor \<Rightarrow> tf_tensor" where
  "reduce_all name keepdims [] reducemined_tensor = reducemined_tensor"
| "reduce_all name keepdims (idx # axes) reducemined_tensor =
     reduce_all name keepdims axes
       (ReduceMin reducemined_tensor idx keepdims (name @ ''_'' @ py_str_int idx))"

text \<open>
  \<^verbatim>\<open>make_node\<close> (ReduceMin.py, lines 13 to 64). Line 38 hands the whole \<open>axes\<close> value
  to \<open>convert_axis\<close>; line 42 then iterates over what that call returned and converts each
  element. The result is the bookkeeping map after the call.
\<close>

definition make_node :: "graph_node \<Rightarrow> (string \<rightharpoonup> layer) \<Rightarrow> error + (string \<rightharpoonup> layer)" where
  "make_node graph_node tf_layers_dict =
     ebind (py_index (node_inputs graph_node) 0) (\<lambda>input0.
     ebind (get_constant_or_variable input0) (\<lambda>graph_node_input.
     ebind (py_index (node_outputs graph_node) 0) (\<lambda>graph_node_output.
     let shape = var_shape graph_node_output;
         dtype = var_dtype graph_node_output;
         tensor_rank = int (length (resolved_shape graph_node_input));
         axes = attrs_get (node_attrs graph_node) ''axes'' (PyList [PyInt (- 1)])
     in
     ebind (convert_axis axes tensor_rank) (\<lambda>axes.
     ebind (py_iter (PyInt axes)) (\<lambda>idxs.
     ebind (map_err (\<lambda>idx. convert_axis idx tensor_rank) idxs) (\<lambda>axes.
     let keepdims = py_bool (attrs_get (node_attrs graph_node) ''keepdims'' (PyInt 1));
         tf_layers_dict = tf_layers_dict(var_name graph_node_output \<mapsto>
           \<lparr>optype = node_op graph_node, layer_shape = shape, layer_dtype = dtype,
            tf_node = None\<rparr>)
     in
     ebind (input_tf_node tf_layers_dict graph_node_input) (\<lambda>reducemined_tensor.
     Inr (tf_layers_dict(var_name graph_node_output \<mapsto>
           \<lparr>optype = node_op graph_node, layer_shape = shape, layer_dtype = dtype,
            tf_node = Some (reduce_all (node_name graph_node) keepdims axes
                              reducemined_tensor)\<rparr>)))))))))"

section \<open>Approximation builders\<close>

text \<open>
  The operations of TensorFlow that \<^verbatim>\<open>alternative_argmax\<close> calls, each with the
  element types it is registered for in TensorFlow 2: \<open>Max\<close> and \<open>Minimum\<close> take the real
  number types (floating and integer), \<open>Sub\<close> and \<open>Mul\<close> these and the complex ones,
  \<open>Cast\<close> everything but strings. \<open>tf.range\<close> is always called with the step \<open>-1\<close>,
  which no unsigned type holds, so it takes the floating and the signed integer types.
  The model keeps no element type in a built operation, so each function is told the element
  type of its operands. \<open>nnapi_scalar\<close> is \<^verbatim>\<open>_nnapi_scalar\<close> (lines 105 to
  124): \<open>tf.constant\<close> refuses a number for a tensor of booleans or strings, and a
  fraction for a tensor of integers.
\<close>

fun is_complex :: "dtype \<Rightarrow> bool" where
  "is_complex Complex64 = True"
| "is_complex Complex128 = True"
| "is_complex d = False"

definition tf_reduce_max :: "dtype \<Rightarrow> tf_tensor \<Rightarrow> int \<Rightarrow> bool \<Rightarrow> error + tf_tensor" where
  "tf_reduce_max element_type input_tensor axis keepdims =
     (if is_floating element_type \<or> is_integer element_type
      then Inr (ReduceMax input_tensor axis keepdims) else Inl OpError)"

definition tf_subtract ::
  "dtype \<Rightarrow> tf_tensor \<Rightarrow> tf_tensor \<Rightarrow> string option \<Rightarrow> error + tf_tensor" where
  "tf_subtract element_type x y name =
     (if is_floating element_type \<or> is_integer element_type \<or> is_complex element_type
      then Inr (Subtract x y name) else Inl OpError)"

definition tf_minimum :: "dtype \<Rightarrow> tf_tensor \<Rightarrow> tf_tensor \<Rightarrow> error + tf_tensor" where
  "tf_minimum element_type x y =
     (if is_floating element_type \<or> is_integer element_type
      then Inr (Minimum x y) else Inl OpError)"

definition tf_multiply :: "dtype \<Rightarrow> tf_tensor \<Rightarrow> tf_tensor \<Rightarrow> error + tf_tensor" where
  "tf_multiply element_type x y =
     (if is_floating element_type \<or> is_integer element_type \<or> is_complex element_type
      then Inr (Multiply x y) else Inl OpError)"

definition tf_cast :: "tf_tensor \<Rightarrow> dtype \<Rightarrow> error + tf_tensor" where
  "tf_cast x element_type = (if element_type = String then Inl OpError else Inr (Cast x element_type))"

definition tf_range :: "int \<Rightarrow> int \<Rightarrow> int \<Rightarrow> dtype \<Rightarrow> error + tf_tensor" where
  "tf_range start limit delta element_type =
     (if element_type \<in> {Float16, BFloat16, Float32, Float64, Int8, Int16, Int32, Int64}
      then Inr (Range start limit delta element_type) else Inl OpError)"

definition nnapi_scalar :: "rat \<Rightarrow> dtype \<Rightarrow> error + tf_tensor" where
  "nnapi_scalar v element_type =
     (if is_floating element_type \<or> is_complex element_type
         \<or> (is_integer element_type \<and> of_int \<lfloor>v\<rfloor> = v)
      then Inr (Scalar v element_type) else Inl TypeError)"

text \<open>Lines 230 to 234: one \<open>expand_dims\<close> for every axis after the reduced one.\<close>

fun expand_loop :: "int \<Rightarrow> int list \<Rightarrow> tf_tensor \<Rightarrow> tf_tensor" where
  "expand_loop safe_axis [] rev_index = rev_index"
| "expand_loop safe_axis (index # rest) rev_index =
     expand_loop safe_axis rest (ExpandDims rev_index (index - safe_axis))"

text \<open>
  \<^verbatim>\<open>alternative_argmax\<close> (lines 127 to 269). The result is what the call printed and
  what it returned or raised. \<open>red\<close> and \<open>reset\<close> are \<open>Color.RED\<close> and \<open>Color.RESET\<close> of
  \<open>utils.colors\<close>. \<open>epsilon if epsilon else 1e-6\<close> takes the default also for \<open>0.0\<close>.
  \<open>reduce_max\<close> and \<open>subtract\<close> of lines 186 to 194 run before the element type is
  tested at line 197. \<open>finish\<close> is lines 215 to 269, which follow the test.
\<close>

definition alternative_argmax ::
  "string \<Rightarrow> string \<Rightarrow> tensor \<Rightarrow> int \<Rightarrow> dtype \<Rightarrow> string option \<Rightarrow> bool \<Rightarrow> rat option \<Rightarrow> bool \<Rightarrow> bool
     \<Rightarrow> string list \<times> (error + tf_tensor)" where
  "alternative_argmax red reset input_tensor axis output_type name keepdims epsilon
     replace_argmax_to_reducemax_and_indicies_is_int64
     replace_argmax_to_reducemax_and_indicies_is_float32 =
     (let rank = int (length (t_shape input_tensor));
          safe_axis = (if axis < 0 then rank + axis else axis);
          finish = (\<lambda>reduction_size zero_if_max_else_one.
            ebind (tf_cast zero_if_max_else_one output_type) (\<lambda>zero_if_max_else_one.
            ebind (nnapi_scalar 1 output_type) (\<lambda>one.
            ebind (tf_subtract output_type one zero_if_max_else_one None)
              (\<lambda>one_if_max_else_zero.
            ebind (tf_range reduction_size 0 (- 1) output_type) (\<lambda>rev_index.
            let rev_index = expand_loop safe_axis (py_range (safe_axis + 1) rank) rev_index in
            ebind (tf_multiply output_type one_if_max_else_zero rev_index)
              (\<lambda>rev_index_if_max_else_zero.
            ebind (tf_reduce_max output_type rev_index_if_max_else_zero axis keepdims)
              (\<lambda>reverse_argmax.
            ebind (nnapi_scalar (of_int reduction_size) output_type) (\<lambda>size_scalar.
            ebind (tf_subtract output_type size_scalar reverse_argmax name) (\<lambda>difference.
            if replace_argmax_to_reducemax_and_indicies_is_int64
            then tf_cast difference Int64
            else if replace_argmax_to_reducemax_and_indicies_is_float32
            then tf_cast difference Float32
            else Inr difference)))))))))
      in
      case py_index (t_shape input_tensor) axis of
        Inl e \<Rightarrow> ([], Inl e)
      | Inr reduction_size \<Rightarrow>
          (case ebind (tf_reduce_max (t_dtype input_tensor) (T input_tensor) axis True)
                  (\<lambda>axis_max.
                     tf_subtract (t_dtype input_tensor) axis_max (T input_tensor) None) of
             Inl e \<Rightarrow> ([], Inl e)
           | Inr zero_if_max \<Rightarrow>
               (let eps = (case epsilon of
                             None \<Rightarrow> 1 / 1000000
                           | Some e \<Rightarrow> if e = 0 then 1 / 1000000 else e)
                in
                if is_floating (t_dtype input_tensor)
                then
                  ([],
                   ebind (nnapi_scalar eps (t_dtype input_tensor)) (\<lambda>eps_scalar.
                   ebind (tf_minimum (t_dtype input_tensor) eps_scalar zero_if_max)
                     (\<lambda>zero_if_max_else_eps.
                   ebind (nnapi_scalar (1 / eps) (t_dtype input_tensor)) (\<lambda>inverse_scalar.
                   ebind (tf_multiply (t_dtype input_tensor) zero_if_max_else_eps
                            inverse_scalar)
                     (finish reduction_size)))))
                else if is_integer (t_dtype input_tensor)
                then
                  ([],
                   ebind (nnapi_scalar 1 (t_dtype input_tensor)) (\<lambda>one.
                   ebind (tf_minimum (t_dtype input_tensor) one zero_if_max)
                     (finish reduction_size)))
                else
                  (let error_msg = red @ ''ERROR:'' @ reset @ '' ''
                         @ ''Please specify epsilon for unknown input data type. ''
                   in ([error_msg], Inl AssertionError)))))"

text \<open>
  \<^verbatim>\<open>alternative_asin\<close> and \<^verbatim>\<open>alternative_acos\<close> (lines 273 to 336) on one
  finite element \<open>x\<close> of the input tensor, in exact real arithmetic. \<open>None\<close> is a result that
  is no finite number: a division by zero (nan for \<open>0 / 0\<close>) and the square root of a
  negative number (nan). Every later operation on a nan gives nan. In both functions the one
  divisor is \<open>|x|\<close>, and its numerator \<open>min(x, 0) * -1\<close> is zero when \<open>|x|\<close> is, so the
  division by zero that can occur is \<open>0 / 0\<close>.
\<close>

definition tf_divide :: "real \<Rightarrow> real \<Rightarrow> real option" where
  "tf_divide a b = (if b = 0 then None else Some (a / b))"

definition tf_sqrt :: "real \<Rightarrow> real option" where
  "tf_sqrt a = (if a < 0 then None else Some (sqrt a))"

definition alternative_asin :: "real \<Rightarrow> real option" where
  "alternative_asin input_tensor =
     (let x_abs = \<bar>input_tensor\<bar> in
      case tf_divide (min input_tensor 0 * (- 1)) x_abs of
        None \<Rightarrow> None
      | Some neg \<Rightarrow>
          (let x = x_abs;
               y = - 0.0187293;
               y = y * x;
               y = y + 0.0742610;
               y = y * x;
               y = y - 0.2121144;
               y = y * x;
               y = y + 1.5707288
           in case tf_sqrt (1.0 - x) of
                None \<Rightarrow> None
              | Some square_root \<Rightarrow>
                  (let y = 3.14159265358979 * 0.5 - square_root * y
                   in Some (y - (2 * neg) * y))))"

definition alternative_acos :: "real \<Rightarrow> real option" where
  "alternative_acos input_tensor =
     (let x_abs = \<bar>input_tensor\<bar> in
      case tf_divide (min input_tensor 0 * (- 1)) x_abs of
        None \<Rightarrow> None
      | Some neg \<Rightarrow>
          (let x = x_abs;
               y = - 0.0187293;
               y = y * x;
               y = y + 0.0742610;
               y = y * x;
               y = y - 0.2121144;
               y = y * x;
               y = y + 1.5707288
           in case tf_sqrt (1.0 - x) of
                None \<Rightarrow> None
              | Some square_root \<Rightarrow>
                  (let y = y * square_root;
                       y = y * (1.0 - 2.0 * neg)
                   in Some (neg * 3.14159265358979 + y))))"

section \<open>Padding calculator\<close>

text \<open>
  Integers are Python's, without a bound; the int64 arithmetic of numpy and TensorFlow
  agrees with them as long as no result leaves int64, which the theorems on computed pads
  ask of the sizes. A float is a float64, written as the rational number it is: a result
  computed in float64 is rounded to the nearest float64, ties to even (\<open>float64\<close> below).
  A deferred (TensorFlow) value is the value it has when the graph runs, so the two tables of
  operations below are modelled by the same functions of HOL.
\<close>

datatype padding = PadList "int list" | PadStr string

record pad_ops =
  max_op :: "rat \<Rightarrow> rat \<Rightarrow> rat"
  ceil_op :: "rat \<Rightarrow> rat"
  floor_op :: "rat \<Rightarrow> rat"
  cast_int_op :: "rat \<Rightarrow> int"

definition np_ceil :: "rat \<Rightarrow> rat" where
  "np_ceil x = of_int \<lceil>x\<rceil>"

definition np_floor :: "rat \<Rightarrow> rat" where
  "np_floor x = of_int \<lfloor>x\<rfloor>"

text \<open>\<open>astype(np.int64)\<close> and \<open>tf.cast(_, tf.int64)\<close> cut the fraction off, towards zero.\<close>

definition np_astype_int64 :: "rat \<Rightarrow> int" where
  "np_astype_int64 x = (if 0 \<le> x then \<lfloor>x\<rfloor> else \<lceil>x\<rceil>)"

definition tf_ceil :: "rat \<Rightarrow> rat" where
  "tf_ceil x = of_int \<lceil>x\<rceil>"

definition tf_floor :: "rat \<Rightarrow> rat" where
  "tf_floor x = of_int \<lfloor>x\<rfloor>"

definition tf_cast_int64 :: "rat \<Rightarrow> int" where
  "tf_cast_int64 x = (if 0 \<le> x then \<lfloor>x\<rfloor> else \<lceil>x\<rceil>)"

definition pad_numpy_ops :: pad_ops where
  "pad_numpy_ops =
     \<lparr>max_op = max, ceil_op = np_ceil, floor_op = np_floor, cast_int_op = np_astype_int64\<rparr>"

definition pad_tf_ops :: pad_ops where
  "pad_tf_ops =
     \<lparr>max_op = max, ceil_op = tf_ceil, floor_op = tf_floor, cast_int_op = tf_cast_int64\<rparr>"

text \<open>
  Rounding to float64: a nonzero \<open>x\<close> with \<open>2^e \<le> |x| < 2^(e+1)\<close> goes to the nearest
  multiple of \<open>2^(e-52)\<close>, and of two nearest ones to the one with the even multiplier
  (53 significant bits, round to nearest, ties to even). The exponent range of float64
  (\<open>2^-1022\<close> to \<open>2^1024\<close>) holds every integer of int64 and every quotient of two.
  \<open>bit_length n\<close> is the number of binary digits of \<open>n\<close>, and \<open>binary_exponent x\<close>
  the \<open>e\<close> above, found from the digits of the numerator and the denominator.
\<close>

function bit_length :: "int \<Rightarrow> int" where
  "bit_length n = (if n \<le> 0 then 0 else 1 + bit_length (n div 2))"
  by pat_completeness auto
termination
  by (relation "measure nat") auto

declare bit_length.simps [simp del]

definition pow2 :: "int \<Rightarrow> rat" where
  "pow2 e = (if 0 \<le> e then 2 ^ nat e else 1 / 2 ^ nat (- e))"

definition binary_exponent :: "rat \<Rightarrow> int" where
  "binary_exponent x =
     (let d = bit_length (fst (quotient_of \<bar>x\<bar>)) - bit_length (snd (quotient_of \<bar>x\<bar>))
      in if pow2 d \<le> \<bar>x\<bar> then d else d - 1)"

definition round_half_even :: "rat \<Rightarrow> int" where
  "round_half_even x =
     (let n = \<lfloor>x\<rfloor>; r = x - of_int n
      in if r < 1 / 2 then n else if 1 / 2 < r then n + 1 else if even n then n else n + 1)"

definition float64 :: "rat \<Rightarrow> rat" where
  "float64 x =
     (if x = 0 then 0
      else let ulp = pow2 (binary_exponent x - 52)
           in of_int (round_half_even (x / ulp)) * ulp)"

text \<open>
  \<open>a / b\<close> on numpy or TensorFlow integers: both are converted to float64 and divided
  there. A zero divisor raises nothing, it gives inf or nan; the cast to int64 that follows
  each quotient below is then undefined, and the model stops there.
\<close>

definition float64_divide :: "int \<Rightarrow> int \<Rightarrow> rat" where
  "float64_divide a b = float64 (float64 (of_int a) / float64 (of_int b))"

definition true_divide :: "int \<Rightarrow> int \<Rightarrow> error + rat" where
  "true_divide a b = (if b = 0 then Inl NonFiniteCast else Inr (float64_divide a b))"

text \<open>\<open>np.zeros([n], np.int64)\<close> and \<open>tf.zeros([n], tf.int64)\<close>.\<close>

definition np_zeros :: "nat \<Rightarrow> int list" where
  "np_zeros n = replicate n 0"

definition tf_zeros :: "nat \<Rightarrow> int list" where
  "tf_zeros n = replicate n 0"

text \<open>
  \<open>pads += xs\<close> on an array and a list: element by element; a list of one element is
  added to every element; any other length raises.
\<close>

definition array_iadd :: "int list \<Rightarrow> int list \<Rightarrow> error + int list" where
  "array_iadd pads xs =
     (if length xs = length pads then Inr (map2 (+) pads xs)
      else if length xs = 1 then Inr (map (\<lambda>p. p + hd xs) pads)
      else Inl ValueError)"

text \<open>
  The first \<^verbatim>\<open>def calc_pads_same_pooling\<close> of the module (lines 357 to 427). The
  second \<open>def\<close> of the same name (line 472) rebinds the name, so once the module is loaded
  no call reaches this one.
\<close>

definition calc_pads_same_pooling_first ::
  "int list \<Rightarrow> int list \<Rightarrow> int list \<Rightarrow> int list \<Rightarrow> string \<Rightarrow> pad_ops \<Rightarrow> int \<Rightarrow> error + int list" where
  "calc_pads_same_pooling_first in_spatial_shape kernel_shape strides dilations padding
     padding_ops pads_order =
     (let spatial_size = length kernel_shape;
          pads = replicate (spatial_size * 2) 0
      in for_state
           (\<lambda>i pads.
              ebind (py_index in_spatial_shape (int i)) (\<lambda>in_size.
              ebind (py_index kernel_shape (int i)) (\<lambda>kernel.
              ebind (py_index dilations (int i)) (\<lambda>dilation.
              let filter_size = (kernel - 1) * dilation + 1 in
              ebind (py_index strides (int i)) (\<lambda>stride.
              ebind (true_divide in_size stride) (\<lambda>quotient.
              let out_size = ceil_op padding_ops quotient;
                  out_size = cast_int_op padding_ops out_size;
                  pad_along_axis =
                    max_op padding_ops
                      (of_int ((out_size - 1) * stride + filter_size - in_size)) 0;
                  pad_op = (if py_lower padding = ''same_lower''
                            then ceil_op padding_ops else floor_op padding_ops);
                  pad_begin = pad_op (float64 (float64 pad_along_axis / 2));
                  pad_begin = cast_int_op padding_ops pad_begin;
                  pad_along_axis = cast_int_op padding_ops pad_along_axis;
                  pad_end = pad_along_axis - pad_begin
              in
              ebind (py_setitem pads (int i * pads_order) pad_begin) (\<lambda>pads.
              py_setitem pads
                (int i * pads_order + (if pads_order = 1 then int spatial_size else 1))
                pad_end)))))))
           [0..<spatial_size] pads)"

text \<open>\<^verbatim>\<open>calc_pads_explicit_pooling\<close> (lines 430 to 443).\<close>

definition calc_pads_explicit_pooling :: "padding \<Rightarrow> nat \<Rightarrow> error + int list" where
  "calc_pads_explicit_pooling padding spatial_size =
     (case padding of
        PadStr s \<Rightarrow> Inl AssertionError
      | PadList xs \<Rightarrow>
          for_extend
            (\<lambda>i. ebind (py_index xs (int i)) (\<lambda>pad_begin.
                  ebind (py_index xs (int i + int spatial_size)) (\<lambda>pad_end.
                  Inr [pad_begin, pad_end])))
            [0..<spatial_size] [])"

text \<open>\<^verbatim>\<open>calc_pads_ceil_mode_pooling\<close> (lines 446 to 469).\<close>

definition calc_pads_ceil_mode_pooling ::
  "int list \<Rightarrow> nat \<Rightarrow> int list \<Rightarrow> int list \<Rightarrow> int list \<Rightarrow> bool \<Rightarrow> error + int list" where
  "calc_pads_ceil_mode_pooling in_spatial_shape spatial_size kernel_shape dilations strides
     is_known_shape =
     for_extend
       (\<lambda>i. ebind (py_index in_spatial_shape (int i)) (\<lambda>dim_size.
             ebind (py_index kernel_shape (int i)) (\<lambda>kernel.
             ebind (py_index dilations (int i)) (\<lambda>dilation.
             let filter_size = (kernel - 1) * dilation + 1 in
             ebind (py_index strides (int i)) (\<lambda>stride.
             ebind (true_divide (dim_size - filter_size) stride) (\<lambda>out_size.
             let pad_size =
                   (if is_known_shape
                    then np_astype_int64 (np_ceil out_size - np_floor out_size)
                    else tf_cast_int64 (tf_ceil out_size - tf_floor out_size))
             in Inr [0, pad_size * stride]))))))
       [0..<spatial_size] []"

text \<open>
  The second \<^verbatim>\<open>def calc_pads_same_pooling\<close> (lines 472 to 494), the one the name is
  bound to. Its body calls the name \<open>calc_pads_same_pooling\<close>, that is itself, with the
  keywords of line 487 to 493; its own parameters are those of lines 474 to 479. Had the
  keywords matched, the call would repeat without end (RecursionError).
\<close>

definition calc_pads_same_pooling ::
  "int list \<Rightarrow> int list \<Rightarrow> int list \<Rightarrow> string \<Rightarrow> int list \<Rightarrow> bool \<Rightarrow> error + int list" where
  "calc_pads_same_pooling kernel_shape strides dilations padding in_spatial_shape
     is_known_shape =
     (let pad_ops = (if is_known_shape then pad_numpy_ops else pad_tf_ops) in
      if keywords_bind
           [''kernel_shape'', ''strides'', ''dilations'', ''padding'', ''in_spatial_shape'',
            ''is_known_shape'']
           []
           [''in_spatial_shape'', ''kernel_shape'', ''strides'', ''dilations'', ''padding'',
            ''padding_ops'', ''pads_order'']
      then Inl RecursionError
      else Inl TypeError)"

text \<open>
  The second half of \<^verbatim>\<open>calc_pads_pooling\<close>: the \<open>if\<close> statement of lines 529 to
  543, as a function of the pads accumulated by lines 508 to 527 before it.
\<close>

definition ceil_mode_statement ::
  "int list \<Rightarrow> int list \<Rightarrow> int list \<Rightarrow> padding \<Rightarrow> bool \<Rightarrow> nat \<Rightarrow> int list \<Rightarrow> bool \<Rightarrow> int list
     \<Rightarrow> error + int list" where
  "ceil_mode_statement kernel_shape strides dilations padding is_known_shape spatial_size
     in_spatial_shape ceil_mode pads =
     (if ceil_mode \<and>
         (case padding of
            PadList xs \<Rightarrow> True
          | PadStr s \<Rightarrow> \<not> py_startswith (py_lower s) ''same'')
      then
        ebind
          (map_err
             (\<lambda>i. ebind (py_index in_spatial_shape (int i)) (\<lambda>in_size.
                   ebind (py_index pads (int i * 2)) (\<lambda>pad_begin.
                   ebind (py_index pads (int i * 2 + 1)) (\<lambda>pad_end.
                   Inr (in_size + pad_begin + pad_end)))))
             [0..<spatial_size])
          (\<lambda>new_spatial_shape.
             ebind
               (calc_pads_ceil_mode_pooling new_spatial_shape spatial_size kernel_shape
                  dilations strides is_known_shape)
               (array_iadd pads))
      else Inr pads)"

text \<open>
  \<^verbatim>\<open>calc_pads_pooling\<close> (lines 497 to 544): the accumulation of lines 508 to 527,
  then the \<open>if\<close> statement above.
\<close>

definition calc_pads_pooling ::
  "int list \<Rightarrow> int list \<Rightarrow> int list \<Rightarrow> padding \<Rightarrow> bool \<Rightarrow> nat \<Rightarrow> int list \<Rightarrow> bool
     \<Rightarrow> error + int list" where
  "calc_pads_pooling kernel_shape strides dilations padding is_known_shape spatial_size
     in_spatial_shape ceil_mode =
     (let pads = (if is_known_shape then np_zeros (spatial_size * 2)
                  else tf_zeros (spatial_size * 2))
      in
      ebind
        (case padding of
           PadList xs \<Rightarrow>
             ebind (calc_pads_explicit_pooling padding spatial_size) (array_iadd pads)
         | PadStr s \<Rightarrow>
             if py_startswith (py_lower s) ''same''
             then ebind
                    (calc_pads_same_pooling kernel_shape strides dilations s in_spatial_shape
                       is_known_shape)
                    (array_iadd pads)
             else Inr pads)
        (ceil_mode_statement kernel_shape strides dilations padding is_known_shape spatial_size
           in_spatial_shape ceil_mode))"

section \<open>Input padder\<close>

text \<open>
  \<^verbatim>\<open>tf_shape\<close> (lines 39 to 64) gives the sizes of the tensor's dimensions, as an
  array when the shape is fully defined and as a deferred tensor otherwise.
\<close>

definition tf_shape :: "tensor \<Rightarrow> int list" where
  "tf_shape input_tensor = t_shape input_tensor"

text \<open>\<open>np.count_nonzero\<close>.\<close>

definition np_count_nonzero :: "int list \<Rightarrow> nat" where
  "np_count_nonzero pads = length (filter (\<lambda>p. p \<noteq> 0) pads)"

text \<open>
  \<open>tf.pad(tensor, paddings, mode='CONSTANT', constant_values=c)\<close>: \<open>paddings\<close> has one
  \<open>[begin, end]\<close> pair for every dimension of the tensor, in the order of the dimensions
  (ValueError otherwise); dimension \<open>k\<close> of the result has the size of dimension \<open>k\<close> of the
  tensor plus the two entries of pair \<open>k\<close>.
\<close>

definition tf_pad :: "tensor \<Rightarrow> (int \<times> int) list \<Rightarrow> rat \<Rightarrow> error + tf_tensor" where
  "tf_pad input_tensor paddings constant_values =
     (if length paddings \<noteq> length (t_shape input_tensor) then Inl ValueError
      else Inr (Pad (T input_tensor) paddings constant_values))"

fun output_shape :: "tf_tensor \<Rightarrow> int list" where
  "output_shape (T t) = t_shape t"
| "output_shape (Pad x paddings c) =
     map2 (\<lambda>size (pad_begin, pad_end). pad_begin + size + pad_end) (output_shape x) paddings"
| "output_shape x = []"

text \<open>\<^verbatim>\<open>pad_input\<close> (lines 547 to 597).\<close>

definition pad_input ::
  "tensor \<Rightarrow> bool \<Rightarrow> int list \<Rightarrow> bool \<Rightarrow> nat \<Rightarrow> int list \<Rightarrow> int list \<Rightarrow> padding \<Rightarrow> rat
     \<Rightarrow> error + tf_tensor" where
  "pad_input input_tensor is_known_shape kernel_shape ceil_mode spatial_size strides dilations
     padding padding_constant =
     (if \<not> ceil_mode \<and>
         (padding = PadList (replicate (spatial_size * 2) 0) \<or> padding = PadStr ''VALID'')
      then Inr (T input_tensor)
      else
        (let input_shape = tf_shape input_tensor;
             in_spatial_shape = py_slice input_shape 1 (length kernel_shape + 1)
         in
         ebind
           (calc_pads_pooling kernel_shape strides dilations padding is_known_shape spatial_size
              in_spatial_shape ceil_mode)
           (\<lambda>pads.
              if is_known_shape \<and> np_count_nonzero pads = 0 then Inr (T input_tensor)
              else
                ebind
                  (for_extend
                     (\<lambda>i. ebind (py_index pads (int i * 2)) (\<lambda>pad_begin.
                           ebind (py_index pads (int i * 2 + 1)) (\<lambda>pad_end.
                           Inr [(pad_begin, pad_end)])))
                     [0..<spatial_size] [(0, 0), (0, 0)])
                  (\<lambda>tf_paddings. tf_pad input_tensor tf_paddings padding_constant))))"

section \<open>Properties of the axis converter\<close>

lemma length_py_range: "length (py_range a b) = nat (b - a)"
  by (simp add: py_range_def)

lemma nth_py_range: "0 \<le> k \<Longrightarrow> a + k < b \<Longrightarrow> py_range a b ! nat k = a + k"
  by (simp add: py_range_def)

lemma py_index_nat: "i < length xs \<Longrightarrow> py_index xs (int i) = Inr (xs ! i)"
  by (simp add: py_index_def)

lemma length_convertion_table: "2 < r \<Longrightarrow> int (length (convertion_table r)) = r"
  by (simp add: convertion_table_def length_py_range)

lemma convertion_table_first: "convertion_table r ! 0 = 0"
  by (simp add: convertion_table_def)

lemma convertion_table_second: "convertion_table r ! 1 = r - 1"
  by (simp add: convertion_table_def)

lemma convertion_table_rest:
  assumes "2 \<le> k" "k < r"
  shows "convertion_table r ! nat k = k - 1"
proof -
  have k: "nat k = Suc (Suc (nat (k - 2)))"
    using assms by simp
  have "convertion_table r ! nat k = py_range 1 (r - 1) ! nat (k - 2)"
    unfolding convertion_table_def k by simp
  also have "\<dots> = 1 + (k - 2)"
    using assms by (intro nth_py_range) auto
  finally show ?thesis by simp
qed

lemma convert_axis_nonneg:
  assumes "2 < r" "0 \<le> a" "a < r"
  shows "convert_axis (PyInt a) r = Inr (convertion_table r ! nat a)"
  using assms length_convertion_table [of r]
  by (simp add: py_index_def Let_def)

text \<open>
  C3 as the specification states it fails from rank 4 on: the last axis of a rank-4 tensor
  (W of NCHW) goes to position 2 (W of NHWC), not to position 1.
\<close>

theorem convert_axis_last_counterexample:
  "\<not> (convert_axis (PyInt (4 - 1)) 4 = Inr 1 \<and> convert_axis (PyInt 0) 4 = Inr 0)"
  by (simp add: convertion_table_def py_index_def py_range_def Let_def)

text \<open>
  C3, amended: for every \<open>tensor_rank > 2\<close>, \<open>convert_axis(tensor_rank - 1, tensor_rank)\<close>
  is \<open>tensor_rank - 2\<close> (the last source axis moves down by one) and
  \<open>convert_axis(0, tensor_rank)\<close> is \<open>0\<close> (the batch axis stays).
\<close>

theorem convert_axis_last_and_batch:
  assumes "2 < tensor_rank"
  shows "convert_axis (PyInt (tensor_rank - 1)) tensor_rank = Inr (tensor_rank - 2)
       \<and> convert_axis (PyInt 0) tensor_rank = Inr 0"
proof
  have "convert_axis (PyInt (tensor_rank - 1)) tensor_rank
          = Inr (convertion_table tensor_rank ! nat (tensor_rank - 1))"
    using assms by (intro convert_axis_nonneg) auto
  also have "convertion_table tensor_rank ! nat (tensor_rank - 1) = tensor_rank - 1 - 1"
    using assms by (intro convertion_table_rest) auto
  finally show "convert_axis (PyInt (tensor_rank - 1)) tensor_rank = Inr (tensor_rank - 2)"
    by simp
next
  have "convert_axis (PyInt 0) tensor_rank = Inr (convertion_table tensor_rank ! nat 0)"
    using assms by (intro convert_axis_nonneg) auto
  then show "convert_axis (PyInt 0) tensor_rank = Inr 0"
    by (simp add: convertion_table_first)
qed

theorem convert_axis_last_and_batch_witness:
  "(2::int) < 5 \<and> convert_axis (PyInt (5 - 1)) 5 = Inr (5 - 2) \<and> convert_axis (PyInt 0) 5 = Inr 0"
  using convert_axis_last_and_batch [of 5] by simp

section \<open>Properties of the padding calculator\<close>

lemma py_index_int: "0 \<le> k \<Longrightarrow> k < int (length xs) \<Longrightarrow> py_index xs k = Inr (xs ! nat k)"
  by (simp add: py_index_def)

lemma py_index_twice: "2 * i < length xs \<Longrightarrow> py_index xs (int i * 2) = Inr (xs ! (2 * i))"
  using py_index_int [of "int i * 2" xs] by (simp add: nat_mult_distrib mult.commute)

lemma py_index_twice_Suc:
  "2 * i + 1 < length xs \<Longrightarrow> py_index xs (int i * 2 + 1) = Inr (xs ! (2 * i + 1))"
  using py_index_int [of "int i * 2 + 1" xs] by (simp add: nat_add_distrib nat_mult_distrib mult.commute)

lemma py_index_shift: "i + n < length xs \<Longrightarrow> py_index xs (int i + int n) = Inr (xs ! (i + n))"
  using py_index_int [of "int i + int n" xs] by (simp add: nat_add_distrib)

lemma for_extend_Inr:
  assumes "\<And>i. i \<in> set is \<Longrightarrow> body i = Inr (f i)"
  shows "for_extend body is acc = Inr (acc @ concat (map f is))"
  using assms by (induction "is" arbitrary: acc) simp_all

lemma map_err_Inr:
  assumes "\<And>x. x \<in> set xs \<Longrightarrow> f x = Inr (g x)"
  shows "map_err f xs = Inr (map g xs)"
  using assms by (induction xs) simp_all

lemma length_concat_pairs: "length (concat (map (\<lambda>i. [a i, b i]) [0..<n])) = 2 * n"
  by (induction n) simp_all

lemma nth_concat_pairs:
  assumes "i < n"
  shows "concat (map (\<lambda>i. [a i, b i]) [0..<n]) ! (2 * i) = a i
       \<and> concat (map (\<lambda>i. [a i, b i]) [0..<n]) ! (2 * i + 1) = b i"
  using assms
proof (induction n)
  case 0
  then show ?case by simp
next
  case (Suc n)
  show ?case
  proof (cases "i < n")
    case True
    then have "2 * i + 1 < 2 * n" by simp
    with True Suc.IH show ?thesis
      by (simp add: nth_append length_concat_pairs)
  next
    case False
    with Suc.prems have "i = n" by simp
    then show ?thesis
      by (simp add: nth_append length_concat_pairs)
  qed
qed

lemma map2_add_zeros: "length ys = m \<Longrightarrow> map2 (+) (replicate m (0::int)) ys = ys"
  by (induction ys arbitrary: m) auto

lemma array_iadd_zeros: "length ys = m \<Longrightarrow> array_iadd (replicate m 0) ys = Inr ys"
  by (simp add: array_iadd_def map2_add_zeros)

lemma cast_ceil_minus_floor:
  "np_astype_int64 (np_ceil x - np_floor x) = \<lceil>x\<rceil> - \<lfloor>x\<rfloor>"
  "tf_cast_int64 (tf_ceil x - tf_floor x) = \<lceil>x\<rceil> - \<lfloor>x\<rfloor>"
proof -
  have "(of_int \<lceil>x\<rceil> :: rat) - of_int \<lfloor>x\<rfloor> = of_int (\<lceil>x\<rceil> - \<lfloor>x\<rfloor>)" by simp
  then show "np_astype_int64 (np_ceil x - np_floor x) = \<lceil>x\<rceil> - \<lfloor>x\<rfloor>"
    "tf_cast_int64 (tf_ceil x - tf_floor x) = \<lceil>x\<rceil> - \<lfloor>x\<rfloor>"
    unfolding np_astype_int64_def np_ceil_def np_floor_def tf_cast_int64_def tf_ceil_def tf_floor_def
    by (simp_all only: floor_of_int ceiling_of_int if_cancel)
qed

lemma calc_pads_explicit_pooling_Inr:
  assumes "2 * n \<le> length xs"
  shows "calc_pads_explicit_pooling (PadList xs) n
           = Inr (concat (map (\<lambda>i. [xs ! i, xs ! (i + n)]) [0..<n]))"
proof -
  have "for_extend
          (\<lambda>i. ebind (py_index xs (int i)) (\<lambda>pad_begin.
                ebind (py_index xs (int i + int n)) (\<lambda>pad_end. Inr [pad_begin, pad_end])))
          [0..<n] []
        = Inr ([] @ concat (map (\<lambda>i. [xs ! i, xs ! (i + n)]) [0..<n]))"
  proof (rule for_extend_Inr)
    fix i assume "i \<in> set [0..<n]"
    then have "i < length xs" "i + n < length xs" using assms by auto
    then show "ebind (py_index xs (int i)) (\<lambda>pad_begin.
                ebind (py_index xs (int i + int n)) (\<lambda>pad_end. Inr [pad_begin, pad_end]))
               = Inr [xs ! i, xs ! (i + n)]"
      by (simp add: py_index_shift py_index_nat)
  qed
  then show ?thesis by (simp add: calc_pads_explicit_pooling_def)
qed

lemma calc_pads_ceil_mode_pooling_Inr:
  assumes "n \<le> length shape" "n \<le> length kernel_shape" "n \<le> length dilations"
    "n \<le> length strides" "list_all (\<lambda>s. s \<noteq> 0) (take n strides)"
  shows "calc_pads_ceil_mode_pooling shape n kernel_shape dilations strides is_known_shape
           = Inr (concat (map (\<lambda>i.
               [0, (\<lceil>float64_divide (shape ! i - ((kernel_shape ! i - 1) * dilations ! i + 1))
                       (strides ! i)\<rceil>
                    - \<lfloor>float64_divide (shape ! i - ((kernel_shape ! i - 1) * dilations ! i + 1))
                       (strides ! i)\<rfloor>) * strides ! i]) [0..<n]))"
  unfolding calc_pads_ceil_mode_pooling_def
proof (subst for_extend_Inr)
  fix i assume "i \<in> set [0..<n]"
  then have i: "i < n" by simp
  then have "strides ! i \<noteq> 0"
    using assms(4,5) by (simp add: list_all_length)
  with i assms(1-4)
  show "ebind (py_index shape (int i)) (\<lambda>dim_size.
          ebind (py_index kernel_shape (int i)) (\<lambda>kernel.
          ebind (py_index dilations (int i)) (\<lambda>dilation.
          let filter_size = (kernel - 1) * dilation + 1 in
          ebind (py_index strides (int i)) (\<lambda>stride.
          ebind (true_divide (dim_size - filter_size) stride) (\<lambda>out_size.
          let pad_size =
                (if is_known_shape
                 then np_astype_int64 (np_ceil out_size - np_floor out_size)
                 else tf_cast_int64 (tf_ceil out_size - tf_floor out_size))
          in Inr [0, pad_size * stride])))))
        = Inr [0, (\<lceil>float64_divide (shape ! i - ((kernel_shape ! i - 1) * dilations ! i + 1))
                       (strides ! i)\<rceil>
                    - \<lfloor>float64_divide (shape ! i - ((kernel_shape ! i - 1) * dilations ! i + 1))
                       (strides ! i)\<rfloor>) * strides ! i]"
    by (simp add: py_index_def true_divide_def cast_ceil_minus_floor Let_def del: of_int_diff of_int_add of_int_mult)
qed simp


lemma ebind_Inr: "ebind m Inr = m"
  by (cases m) simp_all

lemma ceil_mode_statement_off:
  "ceil_mode_statement kernel_shape strides dilations padding is_known_shape n shape False = Inr"
  by (rule ext) (simp add: ceil_mode_statement_def)

lemma calc_pads_pooling_no_ceil:
  "calc_pads_pooling kernel_shape strides dilations padding is_known_shape n shape False =
     (case padding of
        PadList xs \<Rightarrow>
          ebind (calc_pads_explicit_pooling padding n) (array_iadd (replicate (n * 2) 0))
      | PadStr s \<Rightarrow>
          if py_startswith (py_lower s) ''same''
          then ebind
                 (calc_pads_same_pooling kernel_shape strides dilations s shape is_known_shape)
                 (array_iadd (replicate (n * 2) 0))
          else Inr (replicate (n * 2) 0))"
  by (simp add: calc_pads_pooling_def ceil_mode_statement_off np_zeros_def tf_zeros_def
      ebind_Inr Let_def split: padding.splits)

lemma calc_pads_pooling_ceil_statement:
  "calc_pads_pooling kernel_shape strides dilations padding is_known_shape n shape ceil_mode =
     ebind (calc_pads_pooling kernel_shape strides dilations padding is_known_shape n shape False)
       (ceil_mode_statement kernel_shape strides dilations padding is_known_shape n shape
          ceil_mode)"
  by (simp add: calc_pads_pooling_def ceil_mode_statement_off ebind_Inr Let_def)

lemma calc_pads_pooling_with_ceil:
  assumes "case padding of PadList xs \<Rightarrow> True | PadStr s \<Rightarrow> \<not> py_startswith (py_lower s) ''same''"
  shows "calc_pads_pooling kernel_shape strides dilations padding is_known_shape n shape True =
     ebind (calc_pads_pooling kernel_shape strides dilations padding is_known_shape n shape False)
       (\<lambda>pads.
          ebind
            (map_err
               (\<lambda>i. ebind (py_index shape (int i)) (\<lambda>in_size.
                     ebind (py_index pads (int i * 2)) (\<lambda>pad_begin.
                     ebind (py_index pads (int i * 2 + 1)) (\<lambda>pad_end.
                     Inr (in_size + pad_begin + pad_end)))))
               [0..<n])
            (\<lambda>new_spatial_shape.
               ebind
                 (calc_pads_ceil_mode_pooling new_spatial_shape n kernel_shape dilations strides
                    is_known_shape)
                 (array_iadd pads)))"
proof -
  have "ceil_mode_statement kernel_shape strides dilations padding is_known_shape n shape True =
        (\<lambda>pads.
          ebind
            (map_err
               (\<lambda>i. ebind (py_index shape (int i)) (\<lambda>in_size.
                     ebind (py_index pads (int i * 2)) (\<lambda>pad_begin.
                     ebind (py_index pads (int i * 2 + 1)) (\<lambda>pad_end.
                     Inr (in_size + pad_begin + pad_end)))))
               [0..<n])
            (\<lambda>new_spatial_shape.
               ebind
                 (calc_pads_ceil_mode_pooling new_spatial_shape n kernel_shape dilations strides
                    is_known_shape)
                 (array_iadd pads)))"
    using assms by (intro ext) (simp add: ceil_mode_statement_def)
  then show ?thesis
    by (simp only: calc_pads_pooling_ceil_statement [where ceil_mode = True])
qed


lemma calc_pads_pooling_base:
  assumes "case padding of
             PadList xs \<Rightarrow> 2 * n \<le> length xs
           | PadStr s \<Rightarrow> \<not> py_startswith (py_lower s) ''same''"
  shows "\<exists>base. calc_pads_pooling kernel_shape strides dilations padding is_known_shape n shape
                  False = Inr base \<and> length base = 2 * n"
proof (cases padding)
  case (PadList xs)
  with assms have "2 * n \<le> length xs" by simp
  then show ?thesis
    unfolding PadList calc_pads_pooling_no_ceil
    by (simp add: calc_pads_explicit_pooling_Inr array_iadd_zeros length_concat_pairs
        mult.commute)
next
  case (PadStr s)
  with assms show ?thesis
    unfolding PadStr calc_pads_pooling_no_ceil by simp
qed

lemma new_spatial_shape_Inr:
  assumes "n \<le> length shape" "length pads = 2 * n"
  shows "map_err
           (\<lambda>i. ebind (py_index shape (int i)) (\<lambda>in_size.
                 ebind (py_index pads (int i * 2)) (\<lambda>pad_begin.
                 ebind (py_index pads (int i * 2 + 1)) (\<lambda>pad_end.
                 Inr (in_size + pad_begin + pad_end)))))
           [0..<n]
         = Inr (map (\<lambda>i. shape ! i + pads ! (2 * i) + pads ! (2 * i + 1)) [0..<n])"
proof (rule map_err_Inr)
  fix i assume "i \<in> set [0..<n]"
  then have "i < length shape" "2 * i < length pads" "2 * i + 1 < length pads"
    using assms by auto
  then show "ebind (py_index shape (int i)) (\<lambda>in_size.
                 ebind (py_index pads (int i * 2)) (\<lambda>pad_begin.
                 ebind (py_index pads (int i * 2 + 1)) (\<lambda>pad_end.
                 Inr (in_size + pad_begin + pad_end))))
             = Inr (shape ! i + pads ! (2 * i) + pads ! (2 * i + 1))"
    by (simp add: py_index_nat py_index_twice py_index_twice_Suc)
qed

lemma calc_pads_pooling_ceil_step:
  assumes wf: "n \<le> length shape" "n \<le> length kernel_shape" "n \<le> length dilations"
    "n \<le> length strides" "list_all (\<lambda>s. s \<noteq> 0) (take n strides)"
    and mode: "case padding of PadList xs \<Rightarrow> True | PadStr s \<Rightarrow> \<not> py_startswith (py_lower s) ''same''"
    and base: "calc_pads_pooling kernel_shape strides dilations padding is_known_shape n shape
                 False = Inr base" "length base = 2 * n"
  shows "calc_pads_pooling kernel_shape strides dilations padding is_known_shape n shape True =
     Inr (map2 (+) base
            (concat (map (\<lambda>i.
               let out_size =
                     float64_divide (shape ! i + base ! (2 * i) + base ! (2 * i + 1)
                              - ((kernel_shape ! i - 1) * dilations ! i + 1))
                     (strides ! i)
               in [0, (\<lceil>out_size\<rceil> - \<lfloor>out_size\<rfloor>) * strides ! i]) [0..<n])))"
proof -
  let ?new = "map (\<lambda>i. shape ! i + base ! (2 * i) + base ! (2 * i + 1)) [0..<n]"
  have new: "\<And>i. i < n \<Longrightarrow> ?new ! i = shape ! i + base ! (2 * i) + base ! (2 * i + 1)"
    by simp
  have "calc_pads_ceil_mode_pooling ?new n kernel_shape dilations strides is_known_shape
          = Inr (concat (map (\<lambda>i.
               [0, (\<lceil>float64_divide (?new ! i - ((kernel_shape ! i - 1) * dilations ! i + 1))
                       (strides ! i)\<rceil>
                    - \<lfloor>float64_divide (?new ! i - ((kernel_shape ! i - 1) * dilations ! i + 1))
                       (strides ! i)\<rfloor>) * strides ! i]) [0..<n]))"
    using wf by (intro calc_pads_ceil_mode_pooling_Inr) simp_all
  also have "concat (map (\<lambda>i.
               [0, (\<lceil>float64_divide (?new ! i - ((kernel_shape ! i - 1) * dilations ! i + 1))
                       (strides ! i)\<rceil>
                    - \<lfloor>float64_divide (?new ! i - ((kernel_shape ! i - 1) * dilations ! i + 1))
                       (strides ! i)\<rfloor>) * strides ! i]) [0..<n])
      = concat (map (\<lambda>i.
               let out_size =
                     float64_divide (shape ! i + base ! (2 * i) + base ! (2 * i + 1)
                              - ((kernel_shape ! i - 1) * dilations ! i + 1))
                     (strides ! i)
               in [0, (\<lceil>out_size\<rceil> - \<lfloor>out_size\<rfloor>) * strides ! i]) [0..<n])"
    by (intro arg_cong [where f = concat] map_cong refl) (simp only: new Let_def atLeastLessThan_iff set_upt)
  finally have ceil: "calc_pads_ceil_mode_pooling ?new n kernel_shape dilations strides
      is_known_shape = Inr (concat (map (\<lambda>i.
               let out_size =
                     float64_divide (shape ! i + base ! (2 * i) + base ! (2 * i + 1)
                              - ((kernel_shape ! i - 1) * dilations ! i + 1))
                     (strides ! i)
               in [0, (\<lceil>out_size\<rceil> - \<lfloor>out_size\<rfloor>) * strides ! i]) [0..<n]))" .
  have len: "length (concat (map (\<lambda>i.
               let out_size =
                     float64_divide (shape ! i + base ! (2 * i) + base ! (2 * i + 1)
                              - ((kernel_shape ! i - 1) * dilations ! i + 1))
                     (strides ! i)
               in [0, (\<lceil>out_size\<rceil> - \<lfloor>out_size\<rfloor>) * strides ! i]) [0..<n])) = length base"
    unfolding Let_def base(2) by (rule length_concat_pairs)
  show ?thesis
    unfolding calc_pads_pooling_with_ceil [OF mode] base(1) ebind.simps
      new_spatial_shape_Inr [OF wf(1) base(2)] ceil
    using len by (simp only: array_iadd_def if_True simp_thms)
qed


lemma calc_pads_pooling_ceil_slots:
  assumes wf: "n \<le> length shape" "n \<le> length kernel_shape" "n \<le> length dilations"
    "n \<le> length strides" "list_all (\<lambda>s. s \<noteq> 0) (take n strides)"
    and mode: "case padding of PadList xs \<Rightarrow> True | PadStr s \<Rightarrow> \<not> py_startswith (py_lower s) ''same''"
    and base: "calc_pads_pooling kernel_shape strides dilations padding is_known_shape n shape
                 False = Inr base" "length base = 2 * n"
    and pads: "calc_pads_pooling kernel_shape strides dilations padding is_known_shape n shape
                 True = Inr pads"
    and i: "i < n"
  shows "pads ! (2 * i) = base ! (2 * i)"
    and "pads ! (2 * i + 1) = base ! (2 * i + 1)
           + (\<lceil>float64_divide (shape ! i + base ! (2 * i) + base ! (2 * i + 1)
                        - ((kernel_shape ! i - 1) * dilations ! i + 1))
                 (strides ! i)\<rceil>
              - \<lfloor>float64_divide (shape ! i + base ! (2 * i) + base ! (2 * i + 1)
                        - ((kernel_shape ! i - 1) * dilations ! i + 1))
                 (strides ! i)\<rfloor>) * strides ! i"
proof -
  let ?extra = "\<lambda>i. (\<lceil>float64_divide (shape ! i + base ! (2 * i) + base ! (2 * i + 1)
                        - ((kernel_shape ! i - 1) * dilations ! i + 1))
                 (strides ! i)\<rceil>
              - \<lfloor>float64_divide (shape ! i + base ! (2 * i) + base ! (2 * i + 1)
                        - ((kernel_shape ! i - 1) * dilations ! i + 1))
                 (strides ! i)\<rfloor>) * strides ! i"
  let ?added = "concat (map (\<lambda>i. [0, ?extra i]) [0..<n])"
  have "pads = map2 (+) base ?added"
    using calc_pads_pooling_ceil_step [OF wf mode base] pads by (simp add: Let_def)
  moreover have "length ?added = 2 * n"
    by (rule length_concat_pairs)
  moreover have "?added ! (2 * i) = 0" "?added ! (2 * i + 1) = ?extra i"
    using nth_concat_pairs [OF i, of "\<lambda>i. 0" ?extra] by simp_all
  moreover have "2 * i < 2 * n" "2 * i + 1 < 2 * n"
    using i by simp_all
  ultimately show "pads ! (2 * i) = base ! (2 * i)"
    and "pads ! (2 * i + 1) = base ! (2 * i + 1) + ?extra i"
    using base(2) by simp_all
qed

lemma ceil_mode_statement_same:
  assumes "py_startswith (py_lower mode) ''same''"
  shows "ceil_mode_statement kernel_shape strides dilations (PadStr mode) is_known_shape n shape
           ceil_mode pads = Inr pads"
  using assms by (simp add: ceil_mode_statement_def)

lemma ceil_mode_statement_valid_example:
  "ceil_mode_statement [2, 2] [2, 2] [1, 1] (PadStr ''VALID'') True 2 [5, 5] True [0, 0, 0, 0]
     = Inr [0, 2, 0, 2]"
  by code_simp

lemma float64_divide_examples:
  "float64_divide 3 2 = 3 / 2"
  "float64_divide 1 3 = 6004799503160661 / 18014398509481984"
  "float64_divide (2 ^ 53 + 1) 2 = 2 ^ 52"
  by code_simp+

lemma calc_pads_pooling_rounds_as_float64:
  "calc_pads_pooling [1] [2] [1] (PadStr ''VALID'') True 1 [2 ^ 53 + 2] True = Inr [0, 0]"
  by code_simp

text \<open>
  C7: with \<open>ceil_mode\<close> set and a padding that is a list or a string that does not start
  with "same", the pads are those accumulated without \<open>ceil_mode\<close> (\<open>base\<close>) plus, for
  every axis, nothing at the begin slot and \<open>(ceil(out_size) - floor(out_size)) * stride\<close> at
  the end slot, where \<open>out_size = (dim_size - filter_size) / stride\<close> is the float64
  quotient and \<open>dim_size\<close> is the input size plus the two pads of \<open>base\<close> (slot by slot:
  \<open>calc_pads_pooling_ceil_slots\<close>). The call is a well-formed one: every list has an
  entry for every spatial axis, no stride is zero, and every size is within int32, so that
  no int64 result overflows. \<open>calc_pads_pooling\<close> is the accumulation of lines 508 to 527
  followed by the \<open>if\<close> statement of lines 529 to 543, and with a padding string that
  starts with "same" that statement hands back the pads it is given, whatever they are and
  whatever \<open>ceil_mode\<close> is.
\<close>

theorem calc_pads_pooling_ceil_mode:
  "(spatial_size \<le> length in_spatial_shape \<and> spatial_size \<le> length kernel_shape
      \<and> spatial_size \<le> length dilations \<and> spatial_size \<le> length strides
      \<and> list_all (\<lambda>stride. stride \<noteq> 0) (take spatial_size strides)
      \<and> list_all (\<lambda>v. \<bar>v\<bar> < 2 ^ 31) (in_spatial_shape @ kernel_shape @ dilations @ strides)
      \<and> (case padding of
            PadList xs \<Rightarrow> 2 * spatial_size \<le> length xs \<and> list_all (\<lambda>v. \<bar>v\<bar> < 2 ^ 31) xs
          | PadStr s \<Rightarrow> \<not> py_startswith (py_lower s) ''same'')
    \<longrightarrow> (\<exists>base.
           calc_pads_pooling kernel_shape strides dilations padding is_known_shape spatial_size
             in_spatial_shape False = Inr base
         \<and> calc_pads_pooling kernel_shape strides dilations padding is_known_shape spatial_size
             in_spatial_shape True =
           Inr (map2 (+) base
                  (concat (map (\<lambda>i.
                     let out_size =
                           float64_divide
                             (in_spatial_shape ! i + base ! (2 * i) + base ! (2 * i + 1)
                              - ((kernel_shape ! i - 1) * dilations ! i + 1))
                             (strides ! i)
                     in [0, (\<lceil>out_size\<rceil> - \<lfloor>out_size\<rfloor>) * strides ! i])
                     [0..<spatial_size])))))
   \<and> calc_pads_pooling kernel_shape strides dilations padding is_known_shape spatial_size
         in_spatial_shape ceil_mode
       = ebind
           (calc_pads_pooling kernel_shape strides dilations padding is_known_shape spatial_size
              in_spatial_shape False)
           (ceil_mode_statement kernel_shape strides dilations padding is_known_shape
              spatial_size in_spatial_shape ceil_mode)
   \<and> (py_startswith (py_lower mode) ''same''
    \<longrightarrow> ceil_mode_statement kernel_shape strides dilations (PadStr mode) is_known_shape
          spatial_size in_spatial_shape ceil_mode pads = Inr pads)"
proof (intro conjI impI)
  assume wf: "spatial_size \<le> length in_spatial_shape \<and> spatial_size \<le> length kernel_shape
      \<and> spatial_size \<le> length dilations \<and> spatial_size \<le> length strides
      \<and> list_all (\<lambda>stride. stride \<noteq> 0) (take spatial_size strides)
      \<and> list_all (\<lambda>v. \<bar>v\<bar> < 2 ^ 31) (in_spatial_shape @ kernel_shape @ dilations @ strides)
      \<and> (case padding of
            PadList xs \<Rightarrow> 2 * spatial_size \<le> length xs \<and> list_all (\<lambda>v. \<bar>v\<bar> < 2 ^ 31) xs
          | PadStr s \<Rightarrow> \<not> py_startswith (py_lower s) ''same'')"
  then have mode: "case padding of
      PadList xs \<Rightarrow> True | PadStr s \<Rightarrow> \<not> py_startswith (py_lower s) ''same''"
    and enough: "case padding of
      PadList xs \<Rightarrow> 2 * spatial_size \<le> length xs
    | PadStr s \<Rightarrow> \<not> py_startswith (py_lower s) ''same''"
    by (simp_all split: padding.splits)
  from enough obtain base where
    base: "calc_pads_pooling kernel_shape strides dilations padding is_known_shape spatial_size
             in_spatial_shape False = Inr base" "length base = 2 * spatial_size"
    using calc_pads_pooling_base [where padding = padding and n = spatial_size] by blast
  from wf have "spatial_size \<le> length in_spatial_shape" "spatial_size \<le> length kernel_shape"
    "spatial_size \<le> length dilations" "spatial_size \<le> length strides"
    "list_all (\<lambda>stride. stride \<noteq> 0) (take spatial_size strides)"
    by simp_all
  from calc_pads_pooling_ceil_step [OF this mode base] base(1)
  show "\<exists>base.
           calc_pads_pooling kernel_shape strides dilations padding is_known_shape spatial_size
             in_spatial_shape False = Inr base
         \<and> calc_pads_pooling kernel_shape strides dilations padding is_known_shape spatial_size
             in_spatial_shape True =
           Inr (map2 (+) base
                  (concat (map (\<lambda>i.
                     let out_size =
                           float64_divide
                             (in_spatial_shape ! i + base ! (2 * i) + base ! (2 * i + 1)
                              - ((kernel_shape ! i - 1) * dilations ! i + 1))
                             (strides ! i)
                     in [0, (\<lceil>out_size\<rceil> - \<lfloor>out_size\<rfloor>) * strides ! i])
                     [0..<spatial_size])))"
    by blast
next
  show "calc_pads_pooling kernel_shape strides dilations padding is_known_shape spatial_size
         in_spatial_shape ceil_mode
       = ebind
           (calc_pads_pooling kernel_shape strides dilations padding is_known_shape spatial_size
              in_spatial_shape False)
           (ceil_mode_statement kernel_shape strides dilations padding is_known_shape
              spatial_size in_spatial_shape ceil_mode)"
    by (rule calc_pads_pooling_ceil_statement)
next
  assume "py_startswith (py_lower mode) ''same''"
  then show "ceil_mode_statement kernel_shape strides dilations (PadStr mode) is_known_shape
          spatial_size in_spatial_shape ceil_mode pads = Inr pads"
    by (rule ceil_mode_statement_same)
qed

theorem calc_pads_pooling_ceil_mode_witness:
  "calc_pads_pooling [2, 2] [2, 2] [1, 1] (PadList [1, 0, 0, 0]) True 2 [5, 5] False
     = Inr [1, 0, 0, 0]
   \<and> calc_pads_pooling [2, 2] [2, 2] [1, 1] (PadList [1, 0, 0, 0]) True 2 [5, 5] True
     = Inr [1, 0, 0, 2]
   \<and> ceil_mode_statement [2, 2] [2, 2] [1, 1] (PadStr ''same_upper'') True 2 [5, 5] True
       [0, 0, 0, 0] = Inr [0, 0, 0, 0]"
proof -
  note inst = calc_pads_pooling_ceil_mode [where spatial_size = 2 and in_spatial_shape = "[5, 5]"
      and kernel_shape = "[2, 2]" and dilations = "[1, 1]" and strides = "[2, 2]"
      and padding = "PadList [1, 0, 0, 0]" and is_known_shape = True and mode = "''same_upper''"
      and ceil_mode = True and pads = "[0, 0, 0, 0]"]
  have wf: "(2::nat) \<le> length [5, 5 :: int] \<and> (2::nat) \<le> length [2, 2 :: int]
      \<and> (2::nat) \<le> length [1, 1 :: int] \<and> (2::nat) \<le> length [2, 2 :: int]
      \<and> list_all (\<lambda>stride. stride \<noteq> 0) (take 2 [2, 2 :: int])
      \<and> list_all (\<lambda>v. \<bar>v\<bar> < 2 ^ 31) ([5, 5] @ [2, 2] @ [1, 1] @ [2, 2 :: int])
      \<and> (case PadList [1, 0, 0, 0] of
            PadList xs \<Rightarrow> 2 * 2 \<le> length xs \<and> list_all (\<lambda>v. \<bar>v\<bar> < 2 ^ 31) xs
          | PadStr s \<Rightarrow> \<not> py_startswith (py_lower s) ''same'')"
    by simp
  have same: "py_startswith (py_lower ''same_upper'') ''same''"
    by code_simp
  have no_ceil: "calc_pads_pooling [2, 2] [2, 2] [1, 1] (PadList [1, 0, 0, 0]) True 2 [5, 5] False
     = Inr [1, 0, 0, 0]"
    by code_simp
  from inst wf obtain base where
    base: "calc_pads_pooling [2, 2] [2, 2] [1, 1] (PadList [1, 0, 0, 0]) True 2 [5, 5] False
             = Inr base"
    and ceil: "calc_pads_pooling [2, 2] [2, 2] [1, 1] (PadList [1, 0, 0, 0]) True 2 [5, 5] True =
           Inr (map2 (+) base
                  (concat (map (\<lambda>i.
                     let out_size =
                           float64_divide
                             ([5, 5] ! i + base ! (2 * i) + base ! (2 * i + 1)
                              - (([2, 2] ! i - 1) * [1, 1] ! i + 1))
                             ([2, 2] ! i)
                     in [0, (\<lceil>out_size\<rceil> - \<lfloor>out_size\<rfloor>) * [2, 2] ! i])
                     [0..<2])))"
    by blast
  have rounded: "float64_divide 4 2 = 2" "\<lceil>float64_divide 3 2\<rceil> = 2" "\<lfloor>float64_divide 3 2\<rfloor> = 1"
    by code_simp+
  from base no_ceil have "base = [1, 0, 0, 0]" by simp
  with ceil rounded have "calc_pads_pooling [2, 2] [2, 2] [1, 1] (PadList [1, 0, 0, 0]) True 2 [5, 5] True
     = Inr [1, 0, 0, 2]"
    by (simp add: upt_rec [of 0 2] upt_rec [of 1 2] numeral_2_eq_2 Let_def)
  with no_ceil inst same show ?thesis by blast
qed

section \<open>The two backends of the padding calculator\<close>

lemma pad_ops_tables_agree: "pad_numpy_ops = pad_tf_ops"
  by (simp add: pad_numpy_ops_def pad_tf_ops_def fun_eq_iff np_ceil_def tf_ceil_def
      np_floor_def tf_floor_def np_astype_int64_def tf_cast_int64_def)

lemma calc_pads_same_pooling_first_backends_agree:
  "calc_pads_same_pooling_first in_spatial_shape kernel_shape strides dilations padding
     pad_numpy_ops pads_order
   = calc_pads_same_pooling_first in_spatial_shape kernel_shape strides dilations padding
     pad_tf_ops pads_order"
  by (simp only: pad_ops_tables_agree)





section \<open>Properties of the input padder\<close>

lemma np_count_nonzero_zeros: "list_all (\<lambda>p. p = 0) pads \<Longrightarrow> np_count_nonzero pads = 0"
  by (induction pads) (simp_all add: np_count_nonzero_def)

text \<open>
  C6: without \<open>ceil_mode\<close>, a padding that is the list of \<open>2 * spatial_size\<close> zeros or the
  string "VALID" makes \<open>pad_input\<close> return the input tensor itself, with no pad operation
  around it; and with a known shape, when the pads that \<open>calc_pads_pooling\<close> computes for the
  call are all zero, \<open>pad_input\<close> returns the input tensor itself as well.
\<close>

theorem pad_input_returns_input_unchanged:
  "(\<not> ceil_mode \<and> (padding = PadList (replicate (2 * spatial_size) 0) \<or> padding = PadStr ''VALID'')
    \<longrightarrow> pad_input input_tensor is_known_shape kernel_shape ceil_mode spatial_size strides
          dilations padding padding_constant = Inr (T input_tensor))
   \<and> (calc_pads_pooling kernel_shape strides dilations padding True spatial_size
         (py_slice (tf_shape input_tensor) 1 (length kernel_shape + 1)) ceil_mode = Inr pads
       \<and> list_all (\<lambda>p. p = 0) pads
    \<longrightarrow> pad_input input_tensor True kernel_shape ceil_mode spatial_size strides dilations padding
          padding_constant = Inr (T input_tensor))"
proof (intro conjI impI)
  assume "\<not> ceil_mode \<and>
    (padding = PadList (replicate (2 * spatial_size) 0) \<or> padding = PadStr ''VALID'')"
  then show "pad_input input_tensor is_known_shape kernel_shape ceil_mode spatial_size strides
          dilations padding padding_constant = Inr (T input_tensor)"
    by (auto simp add: pad_input_def mult.commute)
next
  assume "calc_pads_pooling kernel_shape strides dilations padding True spatial_size
         (py_slice (tf_shape input_tensor) 1 (length kernel_shape + 1)) ceil_mode = Inr pads
       \<and> list_all (\<lambda>p. p = 0) pads"
  then have pads: "calc_pads_pooling kernel_shape strides dilations padding True spatial_size
         (py_slice (tf_shape input_tensor) 1 (length kernel_shape + 1)) ceil_mode = Inr pads"
    and zero: "np_count_nonzero pads = 0"
    by (simp_all add: np_count_nonzero_zeros)
  show "pad_input input_tensor True kernel_shape ceil_mode spatial_size strides dilations padding
          padding_constant = Inr (T input_tensor)"
    unfolding pad_input_def Let_def pads ebind.simps using zero by simp
qed

theorem pad_input_returns_input_unchanged_witness:
  "pad_input \<lparr>t_name = ''x'', t_shape = [1, 4, 4, 3], t_dtype = Float32\<rparr> True [2, 2] False 2
     [2, 2] [1, 1] (PadStr ''VALID'') 0
     = Inr (T \<lparr>t_name = ''x'', t_shape = [1, 4, 4, 3], t_dtype = Float32\<rparr>)
   \<and> pad_input \<lparr>t_name = ''x'', t_shape = [1, 4, 4, 3], t_dtype = Float32\<rparr> False [2, 2] False 2
     [2, 2] [1, 1] (PadList [0, 0, 0, 0]) 0
     = Inr (T \<lparr>t_name = ''x'', t_shape = [1, 4, 4, 3], t_dtype = Float32\<rparr>)
   \<and> calc_pads_pooling [2, 2] [2, 2] [1, 1] (PadStr ''VALID'') True 2 [4, 4] True
     = Inr [0, 0, 0, 0]
   \<and> pad_input \<lparr>t_name = ''x'', t_shape = [1, 4, 4, 3], t_dtype = Float32\<rparr> True [2, 2] True 2
     [2, 2] [1, 1] (PadStr ''VALID'') 0
     = Inr (T \<lparr>t_name = ''x'', t_shape = [1, 4, 4, 3], t_dtype = Float32\<rparr>)"
proof -
  let ?x = "\<lparr>t_name = ''x'', t_shape = [1, 4, 4, 3], t_dtype = Float32\<rparr>"
  have slice: "py_slice (tf_shape ?x) 1 (length [2, 2 :: int] + 1) = [4, 4]"
    by (simp add: py_slice_def tf_shape_def)
  have pads: "calc_pads_pooling [2, 2] [2, 2] [1, 1] (PadStr ''VALID'') True 2 [4, 4] True
     = Inr [0, 0, 0, 0]"
    by code_simp
  have zeros: "list_all (\<lambda>p. p = 0) [0, 0, 0, 0 :: int]"
    by simp
  have list: "PadList [0, 0, 0, 0] = PadList (replicate (2 * 2) 0)"
    by (simp add: numeral_eq_Suc)
  have valid: "pad_input ?x True [2, 2] False 2 [2, 2] [1, 1] (PadStr ''VALID'') 0 = Inr (T ?x)"
    using pad_input_returns_input_unchanged [where ceil_mode = False
        and padding = "PadStr ''VALID''" and input_tensor = ?x and is_known_shape = True
        and kernel_shape = "[2, 2]" and spatial_size = 2 and strides = "[2, 2]"
        and dilations = "[1, 1]" and padding_constant = 0]
    by blast
  have explicit: "pad_input ?x False [2, 2] False 2 [2, 2] [1, 1] (PadList [0, 0, 0, 0]) 0
      = Inr (T ?x)"
    using list pad_input_returns_input_unchanged [where ceil_mode = False
        and padding = "PadList [0, 0, 0, 0]" and input_tensor = ?x and is_known_shape = False
        and kernel_shape = "[2, 2]" and spatial_size = 2 and strides = "[2, 2]"
        and dilations = "[1, 1]" and padding_constant = 0]
    by blast
  have computed: "pad_input ?x True [2, 2] True 2 [2, 2] [1, 1] (PadStr ''VALID'') 0 = Inr (T ?x)"
    using pads zeros pad_input_returns_input_unchanged [where ceil_mode = True
        and padding = "PadStr ''VALID''" and input_tensor = ?x
        and kernel_shape = "[2, 2]" and spatial_size = 2 and strides = "[2, 2]"
        and dilations = "[1, 1]" and padding_constant = 0 and pads = "[0, 0, 0, 0]"]
    unfolding slice by blast
  from valid explicit pads computed show ?thesis by blast
qed

section \<open>Where the code leaves the specification\<close>

lemma calc_pads_same_pooling_raises:
  "calc_pads_same_pooling kernel_shape strides dilations padding in_spatial_shape is_known_shape
     = Inl TypeError"
  by (simp add: calc_pads_same_pooling_def keywords_bind_def)

lemma calc_pads_pooling_same_raises:
  assumes "py_startswith (py_lower mode) ''same''"
  shows "calc_pads_pooling kernel_shape strides dilations (PadStr mode) is_known_shape
           spatial_size in_spatial_shape ceil_mode = Inl TypeError"
  using assms by (simp add: calc_pads_pooling_def calc_pads_same_pooling_raises)

lemma calc_pads_same_pooling_first_example:
  "calc_pads_same_pooling_first [10] [3] [2] [1] ''same_upper'' pad_numpy_ops 2 = Inr [0, 1]"
  "calc_pads_same_pooling_first [10] [3] [2] [1] ''same_lower'' pad_numpy_ops 2 = Inr [1, 0]"
proof -
  have quotient: "true_divide 10 2 = Inr 5"
    by code_simp
  have half: "float64 (float64 1 / 2) = 1 / 2"
    by code_simp
  have lower: "py_lower ''same_upper'' = ''same_upper''" "py_lower ''same_lower'' = ''same_lower''"
    by code_simp+
  have rounded: "\<lfloor>(1::rat) / 2\<rfloor> = 0" "\<lceil>(1::rat) / 2\<rceil> = 1"
    by code_simp+
  show "calc_pads_same_pooling_first [10] [3] [2] [1] ''same_upper'' pad_numpy_ops 2 = Inr [0, 1]"
    by (simp add: calc_pads_same_pooling_first_def py_index_def py_setitem_def quotient half
        lower rounded pad_numpy_ops_def np_ceil_def np_floor_def np_astype_int64_def Let_def numeral_2_eq_2)
  show "calc_pads_same_pooling_first [10] [3] [2] [1] ''same_lower'' pad_numpy_ops 2 = Inr [1, 0]"
    by (simp add: calc_pads_same_pooling_first_def py_index_def py_setitem_def quotient half
        lower rounded pad_numpy_ops_def np_ceil_def np_floor_def np_astype_int64_def Let_def numeral_2_eq_2)
qed

text \<open>
  C1: the specification expects the pads \<open>[0, 1]\<close> for "same_upper" and \<open>[1, 0]\<close> for
  "same_lower" at kernel 3, stride 2, dilation 1 and input size 10. The first definition
  computes them (\<open>calc_pads_same_pooling_first_example\<close>), but the name is bound to the second
  one, whose call of itself passes \<open>padding_ops\<close> and \<open>pads_order\<close>: \<open>calc_pads_pooling\<close>
  raises TypeError for both modes, as for every "same" string
  (\<open>calc_pads_pooling_same_raises\<close>).
\<close>

theorem calc_pads_pooling_same_upper_lower_raises:
  "calc_pads_pooling [3] [2] [1] (PadStr ''same_upper'') True 1 [10] False = Inl TypeError
   \<and> calc_pads_pooling [3] [2] [1] (PadStr ''same_lower'') True 1 [10] False = Inl TypeError"
  by code_simp

lemma ebind_fails: "(\<And>x. \<exists>e. f x = Inl e) \<Longrightarrow> \<exists>e. ebind m f = Inl e"
  by (cases m) auto

lemma make_node_never_returns: "\<exists>e. make_node graph_node tf_layers_dict = Inl e"
  unfolding make_node_def Let_def
  by (rule ebind_fails, rule ebind_fails, rule ebind_fails, rule ebind_fails) simp

lemma make_node_list_axes_raises:
  assumes "py_index (node_inputs graph_node) 0 = Inr input0"
    "get_constant_or_variable input0 = Inr graph_node_input"
    "py_index (node_outputs graph_node) 0 = Inr graph_node_output"
    "attrs_get (node_attrs graph_node) ''axes'' (PyList [PyInt (- 1)]) = PyList axes"
  shows "make_node graph_node tf_layers_dict = Inl TypeError"
  using assms by (simp add: make_node_def)

lemma comprehension_converts_each_axis:
  assumes "2 < tensor_rank" "list_all (\<lambda>a. 0 \<le> a \<and> a < tensor_rank) axes"
  shows "map_err (\<lambda>idx. convert_axis idx tensor_rank) (map PyInt axes)
           = Inr (map (\<lambda>a. convertion_table tensor_rank ! nat a) axes)"
proof -
  have "map_err (\<lambda>idx. convert_axis idx tensor_rank) (map PyInt axes)
          = Inr (map (\<lambda>idx. case idx of PyInt a \<Rightarrow> convertion_table tensor_rank ! nat a
                               | PyList xs \<Rightarrow> 0) (map PyInt axes))"
  proof (rule map_err_Inr)
    fix x assume "x \<in> set (map PyInt axes)"
    then obtain a where "x = PyInt a" "0 \<le> a" "a < tensor_rank"
      using assms(2) by (auto simp: list_all_iff)
    then show "convert_axis x tensor_rank
        = Inr (case x of PyInt a \<Rightarrow> convertion_table tensor_rank ! nat a | PyList xs \<Rightarrow> 0)"
      using assms(1) convert_axis_nonneg [of tensor_rank a] by simp
  qed
  then show ?thesis by (simp add: comp_def)
qed

text \<open>
  C2: for a ReduceMin node without an \<open>axes\<close> attribute (the default \<open>[-1]\<close>) on a
  rank-4 input, \<open>make_node\<close> raises TypeError: line 38 passes the list itself to
  \<open>convert_axis\<close>, which compares it with \<open>0\<close>. The comprehension of line 42 alone would
  convert every element once and in order (\<open>comprehension_converts_each_axis\<close>); as the
  function is written no call returns (\<open>make_node_never_returns\<close>).
\<close>

theorem make_node_default_axes_raises:
  "make_node
     \<lparr>node_op = ''ReduceMin'', node_name = ''reduce'', node_attrs = Map.empty,
      node_inputs = [Variable \<lparr>var_name = ''x'', var_shape = [1, 3, 4, 4], var_dtype = Float32\<rparr>],
      node_outputs = [\<lparr>var_name = ''y'', var_shape = [1, 3, 4, 1], var_dtype = Float32\<rparr>]\<rparr>
     [''x'' \<mapsto> \<lparr>optype = ''Input'', layer_shape = [1, 4, 4, 3], layer_dtype = Float32,
               tf_node = Some (T \<lparr>t_name = ''x'', t_shape = [1, 4, 4, 3], t_dtype = Float32\<rparr>)\<rparr>]
   = Inl TypeError"
  by (simp add: make_node_def py_index_def get_constant_or_variable_def attrs_get_def)

lemma get_constant_or_variable_rank_raises:
  assumes "2 < length (nd_shape values)"
  shows "get_constant_or_variable (Constant name values) = Inl ValueError"
proof -
  have "length ([0] @ py_range 2 (int (length (nd_shape values)) - 2) @ [1])
          \<noteq> length (nd_shape values)"
    using assms by (simp add: length_py_range)
  then show ?thesis
    using assms by (simp add: get_constant_or_variable_def np_transpose_def Let_def)
qed

text \<open>
  C4: for a constant of shape \<open>(1, 2, 2, 3)\<close> the table of line 31 is \<open>[0, 1]\<close>, which
  does not name the four axes of the array, and \<open>transpose\<close> raises ValueError. The same
  holds for every rank above 2 (\<open>get_constant_or_variable_rank_raises\<close>): the table has
  \<open>rank - 2\<close> entries, or 2 at rank 3.
\<close>

theorem get_constant_or_variable_rank4_raises:
  "get_constant_or_variable
     (Constant ''w'' \<lparr>nd_shape = [1, 2, 2, 3], nd_data = [1, 2, 3, 4, 5, 6, 7, 8, 9, 10, 11, 12]\<rparr>)
   = Inl ValueError"
  by code_simp

lemma alternative_argmax_other_type_raises:
  assumes "py_index (t_shape input_tensor) axis = Inr reduction_size"
    "\<not> is_floating (t_dtype input_tensor)" "\<not> is_integer (t_dtype input_tensor)"
  shows "alternative_argmax red reset input_tensor axis output_type name keepdims epsilon
           to_int64 to_float32 = ([], Inl OpError)"
  using assms by (simp add: alternative_argmax_def tf_reduce_max_def Let_def)

lemma alternative_argmax_prints_nothing:
  "fst (alternative_argmax red reset input_tensor axis output_type name keepdims epsilon
          to_int64 to_float32) = []"
proof (cases "py_index (t_shape input_tensor) axis")
  case (Inl e)
  then show ?thesis by (simp add: alternative_argmax_def Let_def)
next
  case (Inr reduction_size)
  show ?thesis
  proof (cases "is_floating (t_dtype input_tensor) \<or> is_integer (t_dtype input_tensor)")
    case True
    then show ?thesis
      using Inr
      by (auto simp add: alternative_argmax_def tf_reduce_max_def tf_subtract_def Let_def)
  next
    case False
    then show ?thesis
      using alternative_argmax_other_type_raises [OF Inr] by simp
  qed
qed

text \<open>
  C8: on a tensor of booleans \<open>alternative_argmax\<close> fails whether \<open>epsilon\<close> is supplied
  or not, and prints nothing: \<open>reduce_max\<close> of line 186 does not take the element type, so
  the call ends there and the test of line 197 with its diagnostic is not reached. The same
  holds for every element type that is neither floating nor integer
  (\<open>alternative_argmax_other_type_raises\<close>), and no call prints the diagnostic
  (\<open>alternative_argmax_prints_nothing\<close>).
\<close>

theorem alternative_argmax_bool_with_epsilon_raises:
  "alternative_argmax ''<red>'' ''<reset>''
     \<lparr>t_name = ''x'', t_shape = [1, 4], t_dtype = Bool\<rparr> (- 1) Float32 None False
     (Some (1 / 1000)) False False
   = ([], Inl OpError)
   \<and> alternative_argmax ''<red>'' ''<reset>''
     \<lparr>t_name = ''x'', t_shape = [1, 4], t_dtype = Bool\<rparr> (- 1) Float32 None False
     None False False
   = ([], Inl OpError)"
  by code_simp

lemma for_extend_keeps_start:
  "for_extend body is acc = Inr result \<Longrightarrow> take (length acc) result = acc"
proof (induction "is" arbitrary: acc)
  case Nil
  then show ?case by simp
next
  case (Cons i "is")
  then obtain xs where xs: "body i = Inr xs" "for_extend body is (acc @ xs) = Inr result"
    by (cases "body i") simp_all
  from Cons.IH [OF xs(2)] have "take (length acc) (take (length (acc @ xs)) result) = take (length acc) (acc @ xs)"
    by simp
  then show ?case by (simp add: min_def)
qed

lemma pad_input_leaves_first_two_dimensions:
  assumes "pad_input input_tensor is_known_shape kernel_shape ceil_mode spatial_size strides
             dilations padding padding_constant = Inr (Pad x paddings c)"
  shows "take 2 paddings = [(0, 0), (0, 0)]"
proof -
  from assms obtain pads tf_paddings where
    loop: "for_extend
             (\<lambda>i. ebind (py_index pads (int i * 2)) (\<lambda>pad_begin.
                   ebind (py_index pads (int i * 2 + 1)) (\<lambda>pad_end.
                   Inr [(pad_begin, pad_end)])))
             [0..<spatial_size] [(0, 0), (0, 0)] = Inr tf_paddings"
    and pad: "tf_pad input_tensor tf_paddings padding_constant = Inr (Pad x paddings c)"
    unfolding pad_input_def Let_def
    by (cases "calc_pads_pooling kernel_shape strides dilations padding is_known_shape
                 spatial_size (py_slice (tf_shape input_tensor) 1 (length kernel_shape + 1))
                 ceil_mode";
        cases "for_extend
             (\<lambda>i. ebind (py_index (projr (calc_pads_pooling kernel_shape strides dilations padding is_known_shape
                 spatial_size (py_slice (tf_shape input_tensor) 1 (length kernel_shape + 1))
                 ceil_mode)) (int i * 2)) (\<lambda>pad_begin.
                   ebind (py_index (projr (calc_pads_pooling kernel_shape strides dilations padding is_known_shape
                 spatial_size (py_slice (tf_shape input_tensor) 1 (length kernel_shape + 1))
                 ceil_mode)) (int i * 2 + 1)) (\<lambda>pad_end.
                   Inr [(pad_begin, pad_end)])))
             [0..<spatial_size] [(0, 0), (0, 0)]")
       (auto split: if_splits)
  from pad have "paddings = tf_paddings"
    by (simp add: tf_pad_def split: if_splits)
  with for_extend_keeps_start [OF loop] show ?thesis by (simp add: numeral_2_eq_2)
qed

text \<open>
  C9: on an input of shape \<open>[1, 4, 6, 3]\<close> with two spatial axes and the explicit pads
  \<open>[1, 1, 1, 1]\<close>, \<open>pad_input\<close> reads the sizes \<open>[4, 6]\<close> of dimensions 1 and 2 as the
  spatial shape, and emits a pad operation that pads dimensions 2 and 3: the result has the
  shape \<open>[1, 4, 8, 5]\<close>. Dimension 1, which was read, keeps its size, and dimension 3, which
  was not, grows. The first two dimensions are never padded
  (\<open>pad_input_leaves_first_two_dimensions\<close>).
\<close>

theorem pad_input_pads_channel_dimension:
  "pad_input \<lparr>t_name = ''x'', t_shape = [1, 4, 6, 3], t_dtype = Float32\<rparr> True [3, 3] False 2
     [1, 1] [1, 1] (PadList [1, 1, 1, 1]) 0
     = Inr (Pad (T \<lparr>t_name = ''x'', t_shape = [1, 4, 6, 3], t_dtype = Float32\<rparr>)
              [(0, 0), (0, 0), (1, 1), (1, 1)] 0)
   \<and> py_slice (tf_shape \<lparr>t_name = ''x'', t_shape = [1, 4, 6, 3], t_dtype = Float32\<rparr>) 1
       (length [3, 3 :: int] + 1) = [4, 6]
   \<and> output_shape (Pad (T \<lparr>t_name = ''x'', t_shape = [1, 4, 6, 3], t_dtype = Float32\<rparr>)
              [(0, 0), (0, 0), (1, 1), (1, 1)] 0) = [1, 4, 8, 5]"
  by code_simp

text \<open>
  C10: at \<open>x = 0\<close> both approximations divide \<open>0\<close> by \<open>|x| = 0\<close> for the sign, and the
  result is no number, where \<open>asin(0) = 0\<close> and \<open>acos(0) = pi / 2\<close>.
\<close>

theorem alternative_asin_acos_at_zero:
  "alternative_asin 0 = None \<and> alternative_acos 0 = None"
  by (simp add: alternative_asin_def alternative_acos_def tf_divide_def)

end
